theory Spec2Isabelle
  imports Main "HOL-Library.Sublist"
begin

section \<open>ITRANS to Devanagari: the data\<close>

text \<open>
  A Python \<open>str\<close> is a sequence of Unicode code points. Devanagari lies outside the
  8-bit range of \<open>char\<close>, so a string is a list of code points, each a natural number.
  The ASCII patterns of the tables are written as string literals and mapped to their
  code points by \<open>ascii\<close>.
\<close>

type_synonym codepoint = nat
type_synonym ustring = "codepoint list"

definition ascii :: "string \<Rightarrow> ustring" where
  "ascii s = map of_char s"

definition space :: codepoint where "space = 0x20"
definition halant :: codepoint where "halant = 0x094D"
definition anusvara :: codepoint where "anusvara = 0x0902"

text \<open>
  The four module-level dictionaries. A dict literal keeps the order of its entries, and
  the order matters (ties of the sort, the iteration over \<open>SPECIAL.keys()\<close>), so each
  is an association list in declaration order.
\<close>

definition VOWELS :: "(ustring \<times> ustring) list" where
  "VOWELS =
   [(ascii ''a'', [0x0905]),
    (ascii ''aa'', [0x0906]), (ascii ''A'', [0x0906]),
    (ascii ''i'', [0x0907]),
    (ascii ''ii'', [0x0908]), (ascii ''I'', [0x0908]),
    (ascii ''u'', [0x0909]),
    (ascii ''uu'', [0x090A]), (ascii ''U'', [0x090A]),
    (ascii ''RRi'', [0x090B]), (ascii ''R^i'', [0x090B]),
    (ascii ''RRI'', [0x0960]), (ascii ''R^I'', [0x0960]),
    (ascii ''LLi'', [0x090C]), (ascii ''L^i'', [0x090C]),
    (ascii ''LLI'', [0x0961]), (ascii ''L^I'', [0x0961]),
    (ascii ''e'', [0x090F]),
    (ascii ''ai'', [0x0910]), (ascii ''E'', [0x0910]),
    (ascii ''o'', [0x0913]),
    (ascii ''au'', [0x0914]), (ascii ''O'', [0x0914]),
    (ascii ''M'', [0x0902]),
    (ascii ''H'', [0x0903]),
    (ascii ''.'', [0x0964]),
    (ascii ''..'', [0x0965])]"

definition CONSONANTS :: "(ustring \<times> ustring) list" where
  "CONSONANTS =
   [(ascii ''k'', [0x0915]), (ascii ''kh'', [0x0916]), (ascii ''g'', [0x0917]),
    (ascii ''gh'', [0x0918]), (ascii ''~N'', [0x0919]), (ascii ''N^'', [0x0919]),
    (ascii ''ch'', [0x091A]), (ascii ''Ch'', [0x091B]), (ascii ''chh'', [0x091B]),
    (ascii ''j'', [0x091C]), (ascii ''jh'', [0x091D]), (ascii ''~n'', [0x091E]),
    (ascii ''JN'', [0x091E]), (ascii ''j~n'', [0x091C, 0x094D, 0x091E]),
    (ascii ''GY'', [0x091C, 0x094D, 0x091E]),
    (ascii ''T'', [0x091F]), (ascii ''Th'', [0x0920]), (ascii ''D'', [0x0921]),
    (ascii ''Dh'', [0x0922]), (ascii ''N'', [0x0923]),
    (ascii ''t'', [0x0924]), (ascii ''th'', [0x0925]), (ascii ''d'', [0x0926]),
    (ascii ''dh'', [0x0927]), (ascii ''n'', [0x0928]),
    (ascii ''p'', [0x092A]), (ascii ''ph'', [0x092B]), (ascii ''b'', [0x092C]),
    (ascii ''bh'', [0x092D]), (ascii ''m'', [0x092E]),
    (ascii ''y'', [0x092F]), (ascii ''r'', [0x0930]), (ascii ''l'', [0x0932]),
    (ascii ''v'', [0x0935]), (ascii ''w'', [0x0935]),
    (ascii ''sh'', [0x0936]), (ascii ''Sh'', [0x0937]), (ascii ''S'', [0x0937]),
    (ascii ''s'', [0x0938]), (ascii ''h'', [0x0939]),
    (ascii ''x'', [0x0915, 0x094D, 0x0937])]"

definition MATRAS :: "(ustring \<times> ustring) list" where
  "MATRAS =
   [(ascii ''aa'', [0x093E]), (ascii ''A'', [0x093E]),
    (ascii ''i'', [0x093F]),
    (ascii ''ii'', [0x0940]), (ascii ''I'', [0x0940]),
    (ascii ''u'', [0x0941]),
    (ascii ''uu'', [0x0942]), (ascii ''U'', [0x0942]),
    (ascii ''RRi'', [0x0943]), (ascii ''R^i'', [0x0943]),
    (ascii ''RRI'', [0x0944]), (ascii ''R^I'', [0x0944]),
    (ascii ''e'', [0x0947]),
    (ascii ''ai'', [0x0948]), (ascii ''E'', [0x0948]),
    (ascii ''o'', [0x094B]),
    (ascii ''au'', [0x094C]), (ascii ''O'', [0x094C])]"

definition SPECIAL :: "(ustring \<times> ustring) list" where
  "SPECIAL =
   [(ascii ''M'', [0x0902]),
    (ascii ''H'', [0x0903]),
    (ascii ''.'', [0x0964]),
    (ascii ''..'', [0x0965])]"

subsection \<open>The pattern index of \<open>__init__\<close>\<close>

text \<open>
  \<open>sorted(keys, key=len, reverse=True)\<close>: Python's sort is stable, also with
  \<open>reverse=True\<close>, so the result is the keys by descending length with equal lengths
  in their original order. That is the stable sort on the negated length.
\<close>

definition sorted_len_reverse :: "ustring list \<Rightarrow> ustring list" where
  "sorted_len_reverse ks = sort_key (\<lambda>p. - int (length p)) ks"

definition vowel_patterns :: "ustring list" where
  "vowel_patterns = sorted_len_reverse (map fst VOWELS)"

definition consonant_patterns :: "ustring list" where
  "consonant_patterns = sorted_len_reverse (map fst CONSONANTS)"

definition matra_patterns :: "ustring list" where
  "matra_patterns = sorted_len_reverse (map fst MATRAS)"

text \<open>
  No sorted index is built for the special marks: both loops over them iterate
  \<open>SPECIAL.keys()\<close>, the keys in declaration order.
\<close>

definition special_keys :: "ustring list" where
  "special_keys = map fst SPECIAL"

definition special_cases :: "(ustring \<times> ustring) list" where
  "special_cases =
   [(ascii ''shri'', ascii ''shrii''),
    (ascii ''bharat'', ascii ''bhaarat''),
    (ascii ''sanskrit'', ascii ''saMskR^it''),
    (ascii ''hindi'', ascii ''hiMdii'')]"

section \<open>The special-case rewriter (lines 97 to 110 of \<open>translate\<close>)\<close>

text \<open>
  \<open>str.split()\<close> without a separator splits at runs of whitespace and drops empty
  words; whitespace is what \<open>str.isspace\<close> accepts.
\<close>

definition py_isspace :: "codepoint \<Rightarrow> bool" where
  "py_isspace c \<longleftrightarrow>
     (0x09 \<le> c \<and> c \<le> 0x0D) \<or> (0x1C \<le> c \<and> c \<le> 0x20) \<or> c = 0x85 \<or> c = 0xA0 \<or>
     c = 0x1680 \<or> (0x2000 \<le> c \<and> c \<le> 0x200A) \<or> c = 0x2028 \<or> c = 0x2029 \<or>
     c = 0x202F \<or> c = 0x205F \<or> c = 0x3000"

text \<open>\<open>split_from cur s\<close>: the words of \<open>s\<close>, where \<open>cur\<close> is the word read so far.\<close>

fun split_from :: "ustring \<Rightarrow> ustring \<Rightarrow> ustring list" where
  "split_from cur [] = (if cur = [] then [] else [cur])"
| "split_from cur (c # cs) =
     (if py_isspace c then (if cur = [] then split_from [] cs else cur # split_from [] cs)
      else split_from (cur @ [c]) cs)"

definition py_split :: "ustring \<Rightarrow> ustring list" where
  "py_split s = split_from [] s"

text \<open>\<open>' '.join(words)\<close>\<close>

fun join_space :: "ustring list \<Rightarrow> ustring" where
  "join_space [] = []"
| "join_space [w] = w"
| "join_space (w # v # ws) = w @ space # join_space (v # ws)"

text \<open>\<open>p in s\<close> on strings: \<open>p\<close> occurs in \<open>s\<close> as a contiguous substring.\<close>

fun is_substring :: "ustring \<Rightarrow> ustring \<Rightarrow> bool" where
  "is_substring p [] = (p = [])"
| "is_substring p (c # cs) = (prefix p (c # cs) \<or> is_substring p cs)"

text \<open>
  \<open>str.lower\<close> is Python's Unicode case mapping, a builtin and no code of the
  repository: the rewriter takes it as the parameter \<open>lower\<close>. On ASCII text it is
  \<open>ascii_lower\<close>.
\<close>

definition ascii_lower :: "ustring \<Rightarrow> ustring" where
  "ascii_lower s = map (\<lambda>c. if 0x41 \<le> c \<and> c \<le> 0x5A then c + 0x20 else c) s"

text \<open>The words of the text with every word equal to the alias replaced (lines 102 to 109).\<close>

definition replace_words :: "(ustring \<Rightarrow> ustring) \<Rightarrow> ustring \<Rightarrow> ustring \<Rightarrow> ustring \<Rightarrow> ustring" where
  "replace_words lower special replacement text =
     join_space (map (\<lambda>word. if lower word = special then replacement else word) (py_split text))"

text \<open>
  The loop over \<open>special_cases.items()\<close>: the first alias that occurs in the lowered
  text rewrites the text and ends the loop (\<open>break\<close>).
\<close>

fun apply_special_cases ::
  "(ustring \<Rightarrow> ustring) \<Rightarrow> (ustring \<times> ustring) list \<Rightarrow> ustring \<Rightarrow> ustring" where
  "apply_special_cases lower [] text = text"
| "apply_special_cases lower ((special, replacement) # rest) text =
     (if is_substring special (lower text) then replace_words lower special replacement text
      else apply_special_cases lower rest text)"

section \<open>The scanner (lines 112 to 236 of \<open>translate\<close>)\<close>

datatype error = IndexError | KeyError | TypeError

text \<open>An element of \<open>result\<close>: a string, or \<open>None\<close> where \<open>dict.get\<close> found no key.\<close>

type_synonym pyval = "ustring option"

text \<open>
  \<open>for pattern in patterns: if s.startswith(pattern): ...; break\<close>: the first pattern of
  the list that is a prefix of \<open>s\<close>.
\<close>

fun first_match :: "ustring list \<Rightarrow> ustring \<Rightarrow> ustring option" where
  "first_match [] s = None"
| "first_match (p # ps) s = (if prefix p s then Some p else first_match ps s)"

text \<open>
  The two main loops guard their body by the truth of the glyph
  (\<open>g = TABLE.get(pattern); if g: ...; break\<close>): a pattern whose glyph is \<open>None\<close> or
  empty is passed over.
\<close>

fun first_truthy_match ::
  "(ustring \<times> ustring) list \<Rightarrow> ustring list \<Rightarrow> ustring \<Rightarrow> (ustring \<times> ustring) option" where
  "first_truthy_match tbl [] s = None"
| "first_truthy_match tbl (p # ps) s =
     (if prefix p s then
        (case map_of tbl p of
           Some g \<Rightarrow> if g \<noteq> [] then Some (p, g) else first_truthy_match tbl ps s
         | None \<Rightarrow> first_truthy_match tbl ps s)
      else first_truthy_match tbl ps s)"

text \<open>\<open>result[-1] = v\<close>: IndexError on the empty list.\<close>

definition set_last :: "'a list \<Rightarrow> 'a \<Rightarrow> error + 'a list" where
  "set_last xs v = (if xs = [] then Inl IndexError else Inr (xs[length xs - 1 := v]))"

text \<open>
  Lines 177 to 198: a halant is due when the position after the consonant is inside the
  text, is no space, starts a consonant pattern and starts no vowel and no special pattern.
\<close>

definition conjunct_follows :: "ustring \<Rightarrow> nat \<Rightarrow> bool" where
  "conjunct_follows text next_pos \<longleftrightarrow>
     next_pos < length text \<and> text ! next_pos \<noteq> space \<and>
     first_match consonant_patterns (drop next_pos text) \<noteq> None \<and>
     \<not> (first_match vowel_patterns (drop next_pos text) \<noteq> None \<or>
        first_match special_keys (drop next_pos text) \<noteq> None)"

text \<open>
  Lines 132 to 202: the body run for the consonant \<open>pattern\<close> matched at \<open>i\<close>. Where the
  vowel looked up is not true, the source assigns nothing to \<open>i\<close>: the cursor stays.
\<close>

definition consonant_body ::
  "ustring \<Rightarrow> nat \<Rightarrow> pyval list \<Rightarrow> ustring \<Rightarrow> ustring \<Rightarrow> error + (nat \<times> pyval list)" where
  "consonant_body text i result0 pattern consonant =
     (let result = result0 @ [Some consonant];
          next_pos = i + length pattern
      in case first_match matra_patterns (drop next_pos text) of
           Some matra_pattern \<Rightarrow>
             if matra_pattern = ascii ''a'' then Inr (next_pos + 1, result)
             else Inr (next_pos + length matra_pattern, result @ [map_of MATRAS matra_pattern])
         | None \<Rightarrow>
             (case first_match vowel_patterns (drop next_pos text) of
                Some vowel_pattern \<Rightarrow>
                  if vowel_pattern = ascii ''a'' then Inr (next_pos + 1, result)
                  else (case map_of VOWELS vowel_pattern of
                          Some vowel \<Rightarrow>
                            if vowel \<noteq> [] then
                              Inr (next_pos + length vowel_pattern, result @ [Some vowel])
                            else Inr (i, result)
                        | None \<Rightarrow> Inr (i, result))
              | None \<Rightarrow>
                  if pattern = ascii ''n'' \<and> next_pos \<ge> length text then
                    (case set_last result (Some [anusvara]) of
                       Inl e \<Rightarrow> Inl e
                     | Inr result' \<Rightarrow> Inr (next_pos, result'))
                  else if conjunct_follows text next_pos then
                    Inr (next_pos, result @ [Some [halant]])
                  else Inr (next_pos, result)))"

text \<open>One run of the body of the \<open>while\<close> loop, at a cursor \<open>i < len(text)\<close>.\<close>

definition step :: "ustring \<Rightarrow> nat \<times> pyval list \<Rightarrow> error + (nat \<times> pyval list)" where
  "step text st =
     (let i = fst st; result = snd st in
      if text ! i = space then Inr (i + 1, result @ [Some [space]])
      else
        case first_truthy_match CONSONANTS consonant_patterns (drop i text) of
          Some (pattern, consonant) \<Rightarrow> consonant_body text i result pattern consonant
        | None \<Rightarrow>
            (case first_truthy_match VOWELS vowel_patterns (drop i text) of
               Some (pattern, vowel) \<Rightarrow> Inr (i + length pattern, result @ [Some vowel])
             | None \<Rightarrow>
                 (case first_match special_keys (drop i text) of
                    Some pattern \<Rightarrow>
                      (case map_of SPECIAL pattern of
                         None \<Rightarrow> Inl KeyError
                       | Some g \<Rightarrow> Inr (i + length pattern, result @ [Some g]))
                  | None \<Rightarrow> Inr (i + 1, result @ [Some [text ! i]]))))"

text \<open>\<open>''.join(result)\<close>: TypeError when an element is \<open>None\<close>.\<close>

fun join_result :: "pyval list \<Rightarrow> error + ustring" where
  "join_result [] = Inr []"
| "join_result (None # r) = Inl TypeError"
| "join_result (Some g # r) =
     (case join_result r of Inl e \<Rightarrow> Inl e | Inr s \<Rightarrow> Inr (g @ s))"

subsection \<open>The loop\<close>

text \<open>
  Every branch of the body moves the cursor forward. This rests on the tables: no key is
  empty, and every vowel has a glyph that is true. It is what makes the loop a total
  function.
\<close>

lemma first_match_SomeD:
  "first_match ps s = Some p \<Longrightarrow> p \<in> set ps \<and> prefix p s"
  by (induction ps) (auto split: if_splits)

lemma first_match_None_iff:
  "first_match ps s = None \<longleftrightarrow> (\<forall>p \<in> set ps. \<not> prefix p s)"
  by (induction ps) auto

lemma first_truthy_match_SomeD:
  "first_truthy_match tbl ps s = Some (p, g) \<Longrightarrow>
     p \<in> set ps \<and> prefix p s \<and> map_of tbl p = Some g \<and> g \<noteq> []"
  by (induction ps) (auto split: if_splits option.splits)

lemma set_sorted_len_reverse [simp]: "set (sorted_len_reverse ks) = set ks"
  by (simp add: sorted_len_reverse_def)

lemma table_lookup:
  assumes "p \<in> set (map fst tbl)" and "\<forall>(k, g) \<in> set tbl. g \<noteq> []"
  shows "\<exists>g. map_of tbl p = Some g \<and> g \<noteq> []"
proof -
  from assms(1) obtain g where "map_of tbl p = Some g"
    by (metis map_of_eq_None_iff not_None_eq set_map)
  moreover from this have "(p, g) \<in> set tbl" by (rule map_of_SomeD)
  ultimately show ?thesis using assms(2) by auto
qed

lemma VOWELS_glyphs: "\<forall>(k, g) \<in> set VOWELS. g \<noteq> []"
  by (simp add: VOWELS_def)
lemma CONSONANTS_glyphs: "\<forall>(k, g) \<in> set CONSONANTS. g \<noteq> []"
  by (simp add: CONSONANTS_def)
lemma MATRAS_glyphs: "\<forall>(k, g) \<in> set MATRAS. g \<noteq> []"
  by (simp add: MATRAS_def)
lemma SPECIAL_glyphs: "\<forall>(k, g) \<in> set SPECIAL. g \<noteq> []"
  by (simp add: SPECIAL_def)

lemma VOWELS_keys: "[] \<notin> set (map fst VOWELS)"
  by (simp add: VOWELS_def ascii_def)
lemma CONSONANTS_keys: "[] \<notin> set (map fst CONSONANTS)"
  by (simp add: CONSONANTS_def ascii_def)
lemma MATRAS_keys: "[] \<notin> set (map fst MATRAS)"
  by (simp add: MATRAS_def ascii_def)
lemma SPECIAL_keys: "[] \<notin> set (map fst SPECIAL)"
  by (simp add: SPECIAL_def ascii_def)

lemma vowel_pattern_glyph:
  "p \<in> set vowel_patterns \<Longrightarrow> \<exists>g. map_of VOWELS p = Some g \<and> g \<noteq> []"
  unfolding vowel_patterns_def using table_lookup [OF _ VOWELS_glyphs] by simp
lemma matra_pattern_glyph:
  "p \<in> set matra_patterns \<Longrightarrow> \<exists>g. map_of MATRAS p = Some g \<and> g \<noteq> []"
  unfolding matra_patterns_def using table_lookup [OF _ MATRAS_glyphs] by simp
lemma consonant_pattern_glyph:
  "p \<in> set consonant_patterns \<Longrightarrow> \<exists>g. map_of CONSONANTS p = Some g \<and> g \<noteq> []"
  unfolding consonant_patterns_def using table_lookup [OF _ CONSONANTS_glyphs] by simp
lemma special_key_glyph:
  "p \<in> set special_keys \<Longrightarrow> \<exists>g. map_of SPECIAL p = Some g \<and> g \<noteq> []"
  unfolding special_keys_def using table_lookup [OF _ SPECIAL_glyphs] by simp

lemma vowel_pattern_nonempty: "p \<in> set vowel_patterns \<Longrightarrow> 0 < length p"
  using VOWELS_keys by (cases p) (simp_all add: vowel_patterns_def)
lemma matra_pattern_nonempty: "p \<in> set matra_patterns \<Longrightarrow> 0 < length p"
  using MATRAS_keys by (cases p) (simp_all add: matra_patterns_def)
lemma consonant_pattern_nonempty: "p \<in> set consonant_patterns \<Longrightarrow> 0 < length p"
  using CONSONANTS_keys by (cases p) (simp_all add: consonant_patterns_def)
lemma special_key_nonempty: "p \<in> set special_keys \<Longrightarrow> 0 < length p"
  using SPECIAL_keys by (cases p) (simp_all add: special_keys_def)

lemma consonant_body_advances:
  assumes "consonant_body text i r pattern c = Inr (i', r')" and "0 < length pattern"
  shows "i < i'"
  using assms
  unfolding consonant_body_def Let_def set_last_def
  by (auto split: option.splits if_splits sum.splits
      dest!: first_match_SomeD dest: vowel_pattern_glyph)

lemma step_advances:
  assumes "step text (i, r) = Inr (i', r')"
  shows "i < i'"
  using assms
  unfolding step_def Let_def
  by (auto split: option.splits if_splits prod.splits
       dest!: first_truthy_match_SomeD first_match_SomeD
       dest: consonant_body_advances consonant_pattern_nonempty vowel_pattern_nonempty special_key_nonempty)

text \<open>The \<open>while i < len(text)\<close> loop, and the join of the result when it ends.\<close>

function scan_loop :: "ustring \<Rightarrow> nat \<times> pyval list \<Rightarrow> error + ustring" where
  "scan_loop text st =
     (if fst st < length text then
        (case step text st of Inl e \<Rightarrow> Inl e | Inr st' \<Rightarrow> scan_loop text st')
      else join_result (snd st))"
  by pat_completeness auto
termination
proof (relation "measure (\<lambda>(text, st). length text - fst st)")
  show "wf (measure (\<lambda>(text, st). length text - fst st))" by simp
next
  fix t :: ustring and st st' :: "nat \<times> pyval list"
  assume "fst st < length t" and "step t st = Inr st'"
  moreover from this have "fst st < fst st'"
    using step_advances [of t "fst st" "snd st" "fst st'" "snd st'"] by simp
  ultimately show "((t, st'), (t, st)) \<in> measure (\<lambda>(text, st). length text - fst st)"
    by simp
qed

text \<open>
  \<open>translate\<close>, with the builtin \<open>str.lower\<close> as a parameter, and for ASCII-cased text.
\<close>

definition translate_with :: "(ustring \<Rightarrow> ustring) \<Rightarrow> ustring \<Rightarrow> error + ustring" where
  "translate_with lower text =
     (if text = [] then Inr []
      else scan_loop (apply_special_cases lower special_cases text) (0, []))"

definition translate :: "ustring \<Rightarrow> error + ustring" where
  "translate text = translate_with ascii_lower text"

section \<open>The tables and the index, evaluated\<close>

text \<open>
  The tables and the sorted pattern lists with every pattern as its code points, and the
  glyph of every key. Concrete inputs are evaluated with these equations.
\<close>

lemma VOWELS_num:
  "VOWELS =
    [([97], [2309]), ([97, 97], [2310]), ([65], [2310]), ([105], [2311]),
     ([105, 105], [2312]), ([73], [2312]), ([117], [2313]), ([117, 117], [2314]),
     ([85], [2314]), ([82, 82, 105], [2315]), ([82, 94, 105], [2315]),
     ([82, 82, 73], [2400]), ([82, 94, 73], [2400]), ([76, 76, 105], [2316]),
     ([76, 94, 105], [2316]), ([76, 76, 73], [2401]), ([76, 94, 73], [2401]),
     ([101], [2319]), ([97, 105], [2320]), ([69], [2320]), ([111], [2323]),
     ([97, 117], [2324]), ([79], [2324]), ([77], [2306]), ([72], [2307]), ([46], [2404]),
     ([46, 46], [2405])]"
  by (simp add: VOWELS_def ascii_def)

lemma CONSONANTS_num:
  "CONSONANTS =
    [([107], [2325]), ([107, 104], [2326]), ([103], [2327]), ([103, 104], [2328]),
     ([126, 78], [2329]), ([78, 94], [2329]), ([99, 104], [2330]), ([67, 104], [2331]),
     ([99, 104, 104], [2331]), ([106], [2332]), ([106, 104], [2333]), ([126, 110], [2334]),
     ([74, 78], [2334]), ([106, 126, 110], [2332, 2381, 2334]),
     ([71, 89], [2332, 2381, 2334]), ([84], [2335]), ([84, 104], [2336]), ([68], [2337]),
     ([68, 104], [2338]), ([78], [2339]), ([116], [2340]), ([116, 104], [2341]),
     ([100], [2342]), ([100, 104], [2343]), ([110], [2344]), ([112], [2346]),
     ([112, 104], [2347]), ([98], [2348]), ([98, 104], [2349]), ([109], [2350]),
     ([121], [2351]), ([114], [2352]), ([108], [2354]), ([118], [2357]), ([119], [2357]),
     ([115, 104], [2358]), ([83, 104], [2359]), ([83], [2359]), ([115], [2360]),
     ([104], [2361]), ([120], [2325, 2381, 2359])]"
  by (simp add: CONSONANTS_def ascii_def)

lemma MATRAS_num:
  "MATRAS =
    [([97, 97], [2366]), ([65], [2366]), ([105], [2367]), ([105, 105], [2368]),
     ([73], [2368]), ([117], [2369]), ([117, 117], [2370]), ([85], [2370]),
     ([82, 82, 105], [2371]), ([82, 94, 105], [2371]), ([82, 82, 73], [2372]),
     ([82, 94, 73], [2372]), ([101], [2375]), ([97, 105], [2376]), ([69], [2376]),
     ([111], [2379]), ([97, 117], [2380]), ([79], [2380])]"
  by (simp add: MATRAS_def ascii_def)

lemma SPECIAL_num:
  "SPECIAL =
    [([77], [2306]), ([72], [2307]), ([46], [2404]), ([46, 46], [2405])]"
  by (simp add: SPECIAL_def ascii_def)

lemma consonant_patterns_num:
  "consonant_patterns =
    [[99, 104, 104], [106, 126, 110], [107, 104], [103, 104], [126, 78], [78, 94], [99, 104],
     [67, 104], [106, 104], [126, 110], [74, 78], [71, 89], [84, 104], [68, 104], [116, 104],
     [100, 104], [112, 104], [98, 104], [115, 104], [83, 104], [107], [103], [106], [84],
     [68], [78], [116], [100], [110], [112], [98], [109], [121], [114], [108], [118], [119],
     [83], [115], [104], [120]]"
  by (simp add: consonant_patterns_def CONSONANTS_num sorted_len_reverse_def)

lemma vowel_patterns_num:
  "vowel_patterns =
    [[82, 82, 105], [82, 94, 105], [82, 82, 73], [82, 94, 73], [76, 76, 105], [76, 94, 105],
     [76, 76, 73], [76, 94, 73], [97, 97], [105, 105], [117, 117], [97, 105], [97, 117],
     [46, 46], [97], [65], [105], [73], [117], [85], [101], [69], [111], [79], [77], [72],
     [46]]"
  by (simp add: vowel_patterns_def VOWELS_num sorted_len_reverse_def)

lemma matra_patterns_num:
  "matra_patterns =
    [[82, 82, 105], [82, 94, 105], [82, 82, 73], [82, 94, 73], [97, 97], [105, 105],
     [117, 117], [97, 105], [97, 117], [65], [105], [73], [117], [85], [101], [69], [111],
     [79]]"
  by (simp add: matra_patterns_def MATRAS_num sorted_len_reverse_def)

lemma special_keys_num: "special_keys = [[77], [72], [46], [46, 46]]"
  by (simp add: special_keys_def SPECIAL_num)

lemma VOWELS_lookup:
  "map_of VOWELS [97] = Some [2309] \<and>
   map_of VOWELS [97, 97] = Some [2310] \<and>
   map_of VOWELS [65] = Some [2310] \<and>
   map_of VOWELS [105] = Some [2311] \<and>
   map_of VOWELS [105, 105] = Some [2312] \<and>
   map_of VOWELS [73] = Some [2312] \<and>
   map_of VOWELS [117] = Some [2313] \<and>
   map_of VOWELS [117, 117] = Some [2314] \<and>
   map_of VOWELS [85] = Some [2314] \<and>
   map_of VOWELS [82, 82, 105] = Some [2315] \<and>
   map_of VOWELS [82, 94, 105] = Some [2315] \<and>
   map_of VOWELS [82, 82, 73] = Some [2400] \<and>
   map_of VOWELS [82, 94, 73] = Some [2400] \<and>
   map_of VOWELS [76, 76, 105] = Some [2316] \<and>
   map_of VOWELS [76, 94, 105] = Some [2316] \<and>
   map_of VOWELS [76, 76, 73] = Some [2401] \<and>
   map_of VOWELS [76, 94, 73] = Some [2401] \<and>
   map_of VOWELS [101] = Some [2319] \<and>
   map_of VOWELS [97, 105] = Some [2320] \<and>
   map_of VOWELS [69] = Some [2320] \<and>
   map_of VOWELS [111] = Some [2323] \<and>
   map_of VOWELS [97, 117] = Some [2324] \<and>
   map_of VOWELS [79] = Some [2324] \<and>
   map_of VOWELS [77] = Some [2306] \<and>
   map_of VOWELS [72] = Some [2307] \<and>
   map_of VOWELS [46] = Some [2404] \<and>
   map_of VOWELS [46, 46] = Some [2405]"
  by (simp add: VOWELS_num)

lemma CONSONANTS_lookup:
  "map_of CONSONANTS [107] = Some [2325] \<and>
   map_of CONSONANTS [107, 104] = Some [2326] \<and>
   map_of CONSONANTS [103] = Some [2327] \<and>
   map_of CONSONANTS [103, 104] = Some [2328] \<and>
   map_of CONSONANTS [126, 78] = Some [2329] \<and>
   map_of CONSONANTS [78, 94] = Some [2329] \<and>
   map_of CONSONANTS [99, 104] = Some [2330] \<and>
   map_of CONSONANTS [67, 104] = Some [2331] \<and>
   map_of CONSONANTS [99, 104, 104] = Some [2331] \<and>
   map_of CONSONANTS [106] = Some [2332] \<and>
   map_of CONSONANTS [106, 104] = Some [2333] \<and>
   map_of CONSONANTS [126, 110] = Some [2334] \<and>
   map_of CONSONANTS [74, 78] = Some [2334] \<and>
   map_of CONSONANTS [106, 126, 110] = Some [2332, 2381, 2334] \<and>
   map_of CONSONANTS [71, 89] = Some [2332, 2381, 2334] \<and>
   map_of CONSONANTS [84] = Some [2335] \<and>
   map_of CONSONANTS [84, 104] = Some [2336] \<and>
   map_of CONSONANTS [68] = Some [2337] \<and>
   map_of CONSONANTS [68, 104] = Some [2338] \<and>
   map_of CONSONANTS [78] = Some [2339] \<and>
   map_of CONSONANTS [116] = Some [2340] \<and>
   map_of CONSONANTS [116, 104] = Some [2341] \<and>
   map_of CONSONANTS [100] = Some [2342] \<and>
   map_of CONSONANTS [100, 104] = Some [2343] \<and>
   map_of CONSONANTS [110] = Some [2344] \<and>
   map_of CONSONANTS [112] = Some [2346] \<and>
   map_of CONSONANTS [112, 104] = Some [2347] \<and>
   map_of CONSONANTS [98] = Some [2348] \<and>
   map_of CONSONANTS [98, 104] = Some [2349] \<and>
   map_of CONSONANTS [109] = Some [2350] \<and>
   map_of CONSONANTS [121] = Some [2351] \<and>
   map_of CONSONANTS [114] = Some [2352] \<and>
   map_of CONSONANTS [108] = Some [2354] \<and>
   map_of CONSONANTS [118] = Some [2357] \<and>
   map_of CONSONANTS [119] = Some [2357] \<and>
   map_of CONSONANTS [115, 104] = Some [2358] \<and>
   map_of CONSONANTS [83, 104] = Some [2359] \<and>
   map_of CONSONANTS [83] = Some [2359] \<and>
   map_of CONSONANTS [115] = Some [2360] \<and>
   map_of CONSONANTS [104] = Some [2361] \<and>
   map_of CONSONANTS [120] = Some [2325, 2381, 2359]"
  by (simp add: CONSONANTS_num)

lemma MATRAS_lookup:
  "map_of MATRAS [97, 97] = Some [2366] \<and>
   map_of MATRAS [65] = Some [2366] \<and>
   map_of MATRAS [105] = Some [2367] \<and>
   map_of MATRAS [105, 105] = Some [2368] \<and>
   map_of MATRAS [73] = Some [2368] \<and>
   map_of MATRAS [117] = Some [2369] \<and>
   map_of MATRAS [117, 117] = Some [2370] \<and>
   map_of MATRAS [85] = Some [2370] \<and>
   map_of MATRAS [82, 82, 105] = Some [2371] \<and>
   map_of MATRAS [82, 94, 105] = Some [2371] \<and>
   map_of MATRAS [82, 82, 73] = Some [2372] \<and>
   map_of MATRAS [82, 94, 73] = Some [2372] \<and>
   map_of MATRAS [101] = Some [2375] \<and>
   map_of MATRAS [97, 105] = Some [2376] \<and>
   map_of MATRAS [69] = Some [2376] \<and>
   map_of MATRAS [111] = Some [2379] \<and>
   map_of MATRAS [97, 117] = Some [2380] \<and>
   map_of MATRAS [79] = Some [2380]"
  by (simp add: MATRAS_num)

lemma SPECIAL_lookup:
  "map_of SPECIAL [77] = Some [2306] \<and>
   map_of SPECIAL [72] = Some [2307] \<and>
   map_of SPECIAL [46] = Some [2404] \<and>
   map_of SPECIAL [46, 46] = Some [2405]"
  by (simp add: SPECIAL_num)

lemmas eval_simps =
  translate_def translate_with_def special_cases_def ascii_def ascii_lower_def
  replace_words_def py_split_def py_isspace_def space_def halant_def anusvara_def
  step_def consonant_body_def conjunct_follows_def set_last_def
  consonant_patterns_num vowel_patterns_num matra_patterns_num special_keys_num
  CONSONANTS_lookup VOWELS_lookup MATRAS_lookup SPECIAL_lookup

section \<open>The golden cases\<close>

lemma golden_namaste:
  "translate (ascii ''namaste'') = Inr [0x0928, 0x092E, 0x0938, 0x094D, 0x0924, 0x0947]"
  by (simp add: eval_simps)

lemma golden_namaskaar:
  "translate (ascii ''namaskaar'') = Inr [0x0928, 0x092E, 0x0938, 0x094D, 0x0915, 0x093E, 0x0930]"
  by (simp add: eval_simps)

lemma golden_sanskrit:
  "translate (ascii ''sanskrit'') = Inr [0x0938, 0x0902, 0x0938, 0x094D, 0x0915, 0x0943, 0x0924]"
  by (simp add: eval_simps)

lemma golden_shri:
  "translate (ascii ''shri'') = Inr [0x0936, 0x094D, 0x0930, 0x0940]"
  by (simp add: eval_simps)

lemma golden_hindi:
  "translate (ascii ''hindi'') = Inr [0x0939, 0x093F, 0x0902, 0x0926, 0x0940]"
  by (simp add: eval_simps)

lemma golden_raam:
  "translate (ascii ''raam'') = Inr [0x0930, 0x093E, 0x092E]"
  by (simp add: eval_simps)

lemma golden_bharat:
  "translate (ascii ''bharat'') = Inr [0x092D, 0x093E, 0x0930, 0x0924]"
  by (simp add: eval_simps)

lemma bharat_rewritten:
  "apply_special_cases ascii_lower special_cases (ascii ''bharat'') = ascii ''bhaarat''"
  by (simp add: eval_simps)

text \<open>
  C1. \<open>translate\<close> returns the fixed outputs on the enumerated inputs: the empty string
  for the empty string, and the Devanagari words (as code points) for namaste, namaskaar,
  sanskrit, shri, hindi, raam and bharat; the bare word bharat is first rewritten to
  bhaarat by the alias table.
\<close>

theorem translate_golden:
  "translate [] = Inr [] \<and>
   translate (ascii ''namaste'') = Inr [0x0928, 0x092E, 0x0938, 0x094D, 0x0924, 0x0947] \<and>
   translate (ascii ''namaskaar'') =
     Inr [0x0928, 0x092E, 0x0938, 0x094D, 0x0915, 0x093E, 0x0930] \<and>
   translate (ascii ''sanskrit'') =
     Inr [0x0938, 0x0902, 0x0938, 0x094D, 0x0915, 0x0943, 0x0924] \<and>
   translate (ascii ''shri'') = Inr [0x0936, 0x094D, 0x0930, 0x0940] \<and>
   translate (ascii ''hindi'') = Inr [0x0939, 0x093F, 0x0902, 0x0926, 0x0940] \<and>
   translate (ascii ''raam'') = Inr [0x0930, 0x093E, 0x092E] \<and>
   translate (ascii ''bharat'') = Inr [0x092D, 0x093E, 0x0930, 0x0924] \<and>
   apply_special_cases ascii_lower special_cases (ascii ''bharat'') = ascii ''bhaarat''"
proof -
  have "translate [] = Inr []"
    by (simp add: translate_def translate_with_def)
  then show ?thesis
    using golden_namaste golden_namaskaar golden_sanskrit golden_shri golden_hindi
      golden_raam golden_bharat bharat_rewritten
    by (intro conjI)
qed

section \<open>One run of the loop body, by cases\<close>

text \<open>
  What one run of the body does, branch by branch. Every special pattern is also a vowel
  pattern, so the loop over \<open>SPECIAL.keys()\<close> in the body never finds a match: the
  vowel loop before it has taken the position.
\<close>

lemma first_truthy_match_None_iff:
  "first_truthy_match tbl ps s = None \<longleftrightarrow>
     (\<forall>p \<in> set ps. prefix p s \<longrightarrow> (\<forall>g. map_of tbl p = Some g \<longrightarrow> g = []))"
  by (induction ps) (auto split: option.splits)

lemma prefix_drop_bound:
  assumes "prefix p (drop i t)" and "p \<noteq> []"
  shows "i + length p \<le> length t"
proof -
  from assms(1) have "length p \<le> length t - i"
    using prefix_length_le by fastforce
  moreover from assms(2) have "0 < length p" by simp
  ultimately show ?thesis by linarith
qed

lemma a_not_matra: "ascii ''a'' \<notin> set matra_patterns"
  by (simp add: matra_patterns_num ascii_def)

lemma set_last_snoc: "set_last (xs @ [x]) v = Inr (xs @ [v])"
  by (simp add: set_last_def)

lemma consonant_body_cases:
  assumes "prefix p (drop i t)" and "p \<noteq> []"
  obtains
    (matra) m gm where
      "first_match matra_patterns (drop (i + length p) t) = Some m"
      "map_of MATRAS m = Some gm" "gm \<noteq> []"
      "consonant_body t i res p c = Inr (i + length p + length m, res @ [Some c, Some gm])"
  | (vowel_a)
      "first_match matra_patterns (drop (i + length p) t) = None"
      "first_match vowel_patterns (drop (i + length p) t) = Some (ascii ''a'')"
      "consonant_body t i res p c = Inr (i + length p + 1, res @ [Some c])"
  | (vowel) v gv where
      "first_match matra_patterns (drop (i + length p) t) = None"
      "first_match vowel_patterns (drop (i + length p) t) = Some v"
      "v \<noteq> ascii ''a''" "map_of VOWELS v = Some gv" "gv \<noteq> []"
      "consonant_body t i res p c = Inr (i + length p + length v, res @ [Some c, Some gv])"
  | (final_n)
      "first_match matra_patterns (drop (i + length p) t) = None"
      "first_match vowel_patterns (drop (i + length p) t) = None"
      "p = ascii ''n''" "length t = i + length p"
      "consonant_body t i res p c = Inr (i + length p, res @ [Some [anusvara]])"
  | (conjunct)
      "first_match matra_patterns (drop (i + length p) t) = None"
      "first_match vowel_patterns (drop (i + length p) t) = None"
      "conjunct_follows t (i + length p)"
      "consonant_body t i res p c = Inr (i + length p, res @ [Some c, Some [halant]])"
  | (plain)
      "first_match matra_patterns (drop (i + length p) t) = None"
      "first_match vowel_patterns (drop (i + length p) t) = None"
      "\<not> (p = ascii ''n'' \<and> length t \<le> i + length p)"
      "\<not> conjunct_follows t (i + length p)"
      "consonant_body t i res p c = Inr (i + length p, res @ [Some c])"
proof -
  have bound: "i + length p \<le> length t"
    using assms by (rule prefix_drop_bound)
  show ?thesis
  proof (cases "first_match matra_patterns (drop (i + length p) t)")
    case (Some m)
    then have m: "m \<in> set matra_patterns" by (auto dest: first_match_SomeD)
    then obtain gm where gm: "map_of MATRAS m = Some gm" "gm \<noteq> []"
      using matra_pattern_glyph by blast
    from m have "m \<noteq> ascii ''a''" using a_not_matra by auto
    with Some gm show ?thesis
      by (intro matra [of m gm]) (simp_all add: consonant_body_def)
  next
    case nm: None
    show ?thesis
    proof (cases "first_match vowel_patterns (drop (i + length p) t)")
      case (Some v)
      show ?thesis
      proof (cases "v = ascii ''a''")
        case True
        with nm Some show ?thesis
          by (intro vowel_a) (simp_all add: consonant_body_def)
      next
        case False
        from Some have "v \<in> set vowel_patterns" by (auto dest: first_match_SomeD)
        then obtain gv where gv: "map_of VOWELS v = Some gv" "gv \<noteq> []"
          using vowel_pattern_glyph by blast
        with nm Some False show ?thesis
          by (intro vowel [of v gv]) (simp_all add: consonant_body_def)
      qed
    next
      case nv: None
      show ?thesis
      proof (cases "p = ascii ''n'' \<and> length t \<le> i + length p")
        case True
        with nm nv bound show ?thesis
          by (intro final_n) (auto simp: consonant_body_def set_last_snoc Let_def)
      next
        case notfinal: False
        show ?thesis
        proof (cases "conjunct_follows t (i + length p)")
          case True
          with nm nv notfinal show ?thesis
            by (intro conjunct) (auto simp: consonant_body_def Let_def)
        next
          case False
          with nm nv notfinal show ?thesis
            by (intro plain) (auto simp: consonant_body_def Let_def)
        qed
      qed
    qed
  qed
qed

lemma special_is_vowel:
  assumes "first_match special_keys s = Some p"
  shows "first_truthy_match VOWELS vowel_patterns s \<noteq> None"
proof -
  from assms have "p \<in> set special_keys" and pre: "prefix p s"
    by (auto dest: first_match_SomeD)
  then have p: "p \<in> set vowel_patterns"
    by (auto simp: special_keys_num vowel_patterns_num)
  then obtain g where "map_of VOWELS p = Some g" "g \<noteq> []"
    using vowel_pattern_glyph by blast
  with p pre show ?thesis
    by (auto simp: first_truthy_match_None_iff)
qed

lemma step_cases:
  assumes "i < length t"
  obtains
    (blank) "t ! i = space" "step t (i, res) = Inr (i + 1, res @ [Some [space]])"
  | (consonant) p c where
      "t ! i \<noteq> space"
      "first_truthy_match CONSONANTS consonant_patterns (drop i t) = Some (p, c)"
      "step t (i, res) = consonant_body t i res p c"
  | (vowel) p v where
      "t ! i \<noteq> space"
      "first_truthy_match CONSONANTS consonant_patterns (drop i t) = None"
      "first_truthy_match VOWELS vowel_patterns (drop i t) = Some (p, v)"
      "step t (i, res) = Inr (i + length p, res @ [Some v])"
  | (passthrough)
      "t ! i \<noteq> space"
      "first_truthy_match CONSONANTS consonant_patterns (drop i t) = None"
      "first_truthy_match VOWELS vowel_patterns (drop i t) = None"
      "first_match special_keys (drop i t) = None"
      "step t (i, res) = Inr (i + 1, res @ [Some [t ! i]])"
proof (cases "t ! i = space")
  case True
  then show ?thesis by (intro blank) (simp_all add: step_def)
next
  case ns: False
  show ?thesis
  proof (cases "first_truthy_match CONSONANTS consonant_patterns (drop i t)")
    case (Some pc)
    with ns show ?thesis
      by (cases pc) (auto intro: consonant simp: step_def)
  next
    case nc: None
    show ?thesis
    proof (cases "first_truthy_match VOWELS vowel_patterns (drop i t)")
      case (Some pv)
      with ns nc show ?thesis
        by (cases pv) (auto intro: vowel simp: step_def)
    next
      case nv: None
      then have "first_match special_keys (drop i t) = None"
        using special_is_vowel by (cases "first_match special_keys (drop i t)") auto
      with ns nc nv show ?thesis
        by (intro passthrough) (simp_all add: step_def)
    qed
  qed
qed

end
